theory Spec2Isabelle
  imports Complex_Main
begin

section \<open>Python text\<close>

text \<open>
  Python strings are modelled as \<^typ>\<open>string\<close>: a list of characters whose code points
  lie below 256.  The helpers below are the \<open>str\<close> methods and operators that
  \<open>anythingllm_mcp.py\<close> uses: \<open>strip\<close>, \<open>startswith\<close>, \<open>in\<close>, \<open>join\<close> and the decimal
  rendering of an \<open>int\<close>.
\<close>

definition isspace :: "char \<Rightarrow> bool" where
  "isspace c =
     (let n = (of_char c :: nat)
      in (9 \<le> n \<and> n \<le> 13) \<or> (28 \<le> n \<and> n \<le> 32) \<or> n = 133 \<or> n = 160)"

definition strip :: "string \<Rightarrow> string" where
  "strip s = rev (dropWhile isspace (rev (dropWhile isspace s)))"

definition startswith :: "string \<Rightarrow> string \<Rightarrow> bool" where
  "startswith p s = (take (length p) s = p)"

fun contains :: "string \<Rightarrow> string \<Rightarrow> bool" where
  "contains sub [] = (sub = [])"
| "contains sub (c # cs) = (startswith sub (c # cs) \<or> contains sub cs)"

fun join :: "string \<Rightarrow> string list \<Rightarrow> string" where
  "join sep [] = []"
| "join sep [x] = x"
| "join sep (x # y # ys) = x @ sep @ join sep (y # ys)"

definition digit :: "nat \<Rightarrow> char" where
  "digit n = ''0123456789abcdef'' ! n"

fun str_nat :: "nat \<Rightarrow> string" where
  "str_nat n = (if n < 10 then [digit n] else str_nat (n div 10) @ [digit (n mod 10)])"

definition str_int :: "int \<Rightarrow> string" where
  "str_int i = (if i < 0 then CHR ''-'' # str_nat (nat (- i)) else str_nat (nat i))"

definition hex2 :: "char \<Rightarrow> string" where
  "hex2 c = (let n = (of_char c :: nat) in [digit (n div 16), digit (n mod 16)])"


section \<open>Numbers\<close>

text \<open>
  A Python \<open>float\<close> is carried as its value (a rational, an infinity or a NaN) together
  with the text \<open>float.__repr__\<close> gives for it; the rounding that links the two is not
  part of this development.  Comparisons follow IEEE 754: every comparison with a NaN
  is false.  An \<open>int\<close> is unbounded.
\<close>

datatype fval = Finite rat | PosInf | NegInf | NaN

datatype pyfloat = PyFloat (fvalue: fval) (frepr: string)

datatype pynum = NInt int | NFloat pyfloat

fun nval :: "pynum \<Rightarrow> fval" where
  "nval (NInt i) = Finite (of_int i)"
| "nval (NFloat f) = fvalue f"

fun fval_lt :: "fval \<Rightarrow> fval \<Rightarrow> bool" where
  "fval_lt (Finite a) (Finite b) = (a < b)"
| "fval_lt (Finite a) PosInf = True"
| "fval_lt NegInf (Finite b) = True"
| "fval_lt NegInf PosInf = True"
| "fval_lt _ _ = False"

definition num_lt :: "pynum \<Rightarrow> pynum \<Rightarrow> bool" where
  "num_lt a b = fval_lt (nval a) (nval b)"

fun str_num :: "pynum \<Rightarrow> string" where
  "str_num (NInt i) = str_int i"
| "str_num (NFloat f) = frepr f"


section \<open>JSON values\<close>

text \<open>
  The values \<open>json.loads\<close> produces and \<open>json.dumps\<close> consumes.  A \<open>dict\<close> is an
  association list in insertion order; lookup takes the entry \<open>map_of\<close> finds.
\<close>

datatype json =
    JNull
  | JBool bool
  | JInt int
  | JFloat pyfloat
  | JString string
  | JArray "json list"
  | JObject "(string \<times> json) list"

definition dict_get :: "(string \<times> json) list \<Rightarrow> string \<Rightarrow> json \<Rightarrow> json" where
  "dict_get d k dflt = (case map_of d k of None \<Rightarrow> dflt | Some v \<Rightarrow> v)"

fun py_type_name :: "json \<Rightarrow> string" where
  "py_type_name JNull = ''NoneType''"
| "py_type_name (JBool b) = ''bool''"
| "py_type_name (JInt i) = ''int''"
| "py_type_name (JFloat f) = ''float''"
| "py_type_name (JString s) = ''str''"
| "py_type_name (JArray xs) = ''list''"
| "py_type_name (JObject d) = ''dict''"

subsection \<open>\<open>json.dumps\<close>\<close>

text \<open>
  \<open>escape_char\<close> is the replacement table of \<open>json.encoder\<close>: with \<open>ensure_ascii\<close> every
  character outside \<open>' '..'~'\<close> is escaped, without it only the quote, the backslash and
  the control characters below 0x20.
\<close>

definition escape_char :: "bool \<Rightarrow> char \<Rightarrow> string" where
  "escape_char ensure_ascii c =
     (let n = (of_char c :: nat)
      in if c = CHR 0x22 then [CHR 0x5C, CHR 0x22]
         else if c = CHR 0x5C then [CHR 0x5C, CHR 0x5C]
         else if n = 10 then [CHR 0x5C, CHR ''n'']
         else if n = 13 then [CHR 0x5C, CHR ''r'']
         else if n = 9 then [CHR 0x5C, CHR ''t'']
         else if n = 8 then [CHR 0x5C, CHR ''b'']
         else if n = 12 then [CHR 0x5C, CHR ''f'']
         else if n < 32 \<or> (ensure_ascii \<and> 126 < n) then [CHR 0x5C, CHR ''u'', CHR ''0'', CHR ''0''] @ hex2 c
         else [c])"

definition encode_basestring :: "bool \<Rightarrow> string \<Rightarrow> string" where
  "encode_basestring ensure_ascii s = CHR 0x22 # concat (map (escape_char ensure_ascii) s) @ [CHR 0x22]"

definition float_json :: "pyfloat \<Rightarrow> string" where
  "float_json f =
     (case fvalue f of
        NaN \<Rightarrow> ''NaN''
      | PosInf \<Rightarrow> ''Infinity''
      | NegInf \<Rightarrow> ''-Infinity''
      | Finite q \<Rightarrow> frepr f)"

fun newline_indent :: "nat option \<Rightarrow> nat \<Rightarrow> string" where
  "newline_indent None level = []"
| "newline_indent (Some n) level = CHR 0x0A # replicate (n * level) CHR '' ''"

fun item_separator :: "nat option \<Rightarrow> string" where
  "item_separator None = '', ''"
| "item_separator (Some n) = '',''"

fun iterencode :: "nat option \<Rightarrow> bool \<Rightarrow> nat \<Rightarrow> json \<Rightarrow> string" where
  "iterencode indent ensure_ascii level JNull = ''null''"
| "iterencode indent ensure_ascii level (JBool b) = (if b then ''true'' else ''false'')"
| "iterencode indent ensure_ascii level (JInt i) = str_int i"
| "iterencode indent ensure_ascii level (JFloat f) = float_json f"
| "iterencode indent ensure_ascii level (JString s) = encode_basestring ensure_ascii s"
| "iterencode indent ensure_ascii level (JArray xs) =
     (if xs = [] then ''[]''
      else ''['' @ newline_indent indent (Suc level)
           @ join (item_separator indent @ newline_indent indent (Suc level))
                  (map (iterencode indent ensure_ascii (Suc level)) xs)
           @ newline_indent indent level @ '']'')"
| "iterencode indent ensure_ascii level (JObject d) =
     (if d = [] then ''{}''
      else ''{'' @ newline_indent indent (Suc level)
           @ join (item_separator indent @ newline_indent indent (Suc level))
                  (map (\<lambda>kv. encode_basestring ensure_ascii (fst kv) @ '': ''
                              @ iterencode indent ensure_ascii (Suc level) (snd kv)) d)
           @ newline_indent indent level @ ''}'')"

definition json_dumps :: "json \<Rightarrow> string" where
  "json_dumps v = iterencode None True 0 v"

definition json_response :: "json \<Rightarrow> string" where
  "json_response data = iterencode (Some 2) False 0 data"

subsection \<open>\<open>str\<close> and \<open>repr\<close>\<close>

definition printable :: "char \<Rightarrow> bool" where
  "printable c =
     (let n = (of_char c :: nat) in (32 \<le> n \<and> n < 127) \<or> (161 \<le> n \<and> n \<noteq> 173))"

definition repr_char :: "char \<Rightarrow> char \<Rightarrow> string" where
  "repr_char quote c =
     (let n = (of_char c :: nat)
      in if c = quote \<or> c = CHR 0x5C then [CHR 0x5C, c]
         else if n = 9 then [CHR 0x5C, CHR ''t'']
         else if n = 10 then [CHR 0x5C, CHR ''n'']
         else if n = 13 then [CHR 0x5C, CHR ''r'']
         else if printable c then [c]
         else [CHR 0x5C, CHR ''x''] @ hex2 c)"

definition str_repr :: "string \<Rightarrow> string" where
  "str_repr s =
     (let quote = (if CHR 0x27 \<in> set s \<and> CHR 0x22 \<notin> set s then CHR 0x22 else CHR 0x27)
      in quote # concat (map (repr_char quote) s) @ [quote])"

fun py_repr :: "json \<Rightarrow> string" where
  "py_repr JNull = ''None''"
| "py_repr (JBool b) = (if b then ''True'' else ''False'')"
| "py_repr (JInt i) = str_int i"
| "py_repr (JFloat f) = frepr f"
| "py_repr (JString s) = str_repr s"
| "py_repr (JArray xs) = ''['' @ join '', '' (map py_repr xs) @ '']''"
| "py_repr (JObject d) =
     ''{'' @ join '', '' (map (\<lambda>kv. str_repr (fst kv) @ '': '' @ py_repr (snd kv)) d) @ ''}''"

fun py_str :: "json \<Rightarrow> string" where
  "py_str (JString s) = s"
| "py_str v = py_repr v"


section \<open>Exceptions\<close>

text \<open>
  The exception classes the server can meet: the built-in ones its own code raises, the
  hierarchy of \<open>httpx\<close>, and any further class given by its name and its base.
  \<open>mro\<close> lists a class and its ancestors up to \<open>Exception\<close>; \<open>issubclass\<close> is
  membership in it, which is what \<open>isinstance\<close> tests on the class of an object.
\<close>

datatype pyclass =
    Exception
  | RuntimeError
  | ValueError
  | TypeError
  | AttributeError
  | JSONDecodeError
  | HTTPError
  | RequestError
  | TransportError
  | TimeoutException
  | ConnectTimeout
  | ReadTimeout
  | WriteTimeout
  | PoolTimeout
  | NetworkError
  | ConnectError
  | ReadError
  | WriteError
  | CloseError
  | ProtocolError
  | LocalProtocolError
  | RemoteProtocolError
  | ProxyError
  | UnsupportedProtocol
  | DecodingError
  | TooManyRedirects
  | InvalidURL
  | CookieConflict
  | StreamError
  | Subclass string pyclass

fun mro :: "pyclass \<Rightarrow> pyclass list" where
  "mro Exception = [Exception]"
| "mro RuntimeError = [RuntimeError, Exception]"
| "mro ValueError = [ValueError, Exception]"
| "mro TypeError = [TypeError, Exception]"
| "mro AttributeError = [AttributeError, Exception]"
| "mro JSONDecodeError = [JSONDecodeError, ValueError, Exception]"
| "mro HTTPError = [HTTPError, Exception]"
| "mro RequestError = [RequestError, HTTPError, Exception]"
| "mro TransportError = [TransportError, RequestError, HTTPError, Exception]"
| "mro TimeoutException = [TimeoutException, TransportError, RequestError, HTTPError, Exception]"
| "mro ConnectTimeout =
     [ConnectTimeout, TimeoutException, TransportError, RequestError, HTTPError, Exception]"
| "mro ReadTimeout =
     [ReadTimeout, TimeoutException, TransportError, RequestError, HTTPError, Exception]"
| "mro WriteTimeout =
     [WriteTimeout, TimeoutException, TransportError, RequestError, HTTPError, Exception]"
| "mro PoolTimeout =
     [PoolTimeout, TimeoutException, TransportError, RequestError, HTTPError, Exception]"
| "mro NetworkError = [NetworkError, TransportError, RequestError, HTTPError, Exception]"
| "mro ConnectError =
     [ConnectError, NetworkError, TransportError, RequestError, HTTPError, Exception]"
| "mro ReadError = [ReadError, NetworkError, TransportError, RequestError, HTTPError, Exception]"
| "mro WriteError = [WriteError, NetworkError, TransportError, RequestError, HTTPError, Exception]"
| "mro CloseError = [CloseError, NetworkError, TransportError, RequestError, HTTPError, Exception]"
| "mro ProtocolError = [ProtocolError, TransportError, RequestError, HTTPError, Exception]"
| "mro LocalProtocolError =
     [LocalProtocolError, ProtocolError, TransportError, RequestError, HTTPError, Exception]"
| "mro RemoteProtocolError =
     [RemoteProtocolError, ProtocolError, TransportError, RequestError, HTTPError, Exception]"
| "mro ProxyError = [ProxyError, TransportError, RequestError, HTTPError, Exception]"
| "mro UnsupportedProtocol =
     [UnsupportedProtocol, TransportError, RequestError, HTTPError, Exception]"
| "mro DecodingError = [DecodingError, RequestError, HTTPError, Exception]"
| "mro TooManyRedirects = [TooManyRedirects, RequestError, HTTPError, Exception]"
| "mro InvalidURL = [InvalidURL, Exception]"
| "mro CookieConflict = [CookieConflict, Exception]"
| "mro StreamError = [StreamError, RuntimeError, Exception]"
| "mro (Subclass name base) = Subclass name base # mro base"

definition issubclass :: "pyclass \<Rightarrow> pyclass \<Rightarrow> bool" where
  "issubclass c d = (d \<in> set (mro c))"

fun class_name :: "pyclass \<Rightarrow> string" where
  "class_name Exception = ''Exception''"
| "class_name RuntimeError = ''RuntimeError''"
| "class_name ValueError = ''ValueError''"
| "class_name TypeError = ''TypeError''"
| "class_name AttributeError = ''AttributeError''"
| "class_name JSONDecodeError = ''JSONDecodeError''"
| "class_name HTTPError = ''HTTPError''"
| "class_name RequestError = ''RequestError''"
| "class_name TransportError = ''TransportError''"
| "class_name TimeoutException = ''TimeoutException''"
| "class_name ConnectTimeout = ''ConnectTimeout''"
| "class_name ReadTimeout = ''ReadTimeout''"
| "class_name WriteTimeout = ''WriteTimeout''"
| "class_name PoolTimeout = ''PoolTimeout''"
| "class_name NetworkError = ''NetworkError''"
| "class_name ConnectError = ''ConnectError''"
| "class_name ReadError = ''ReadError''"
| "class_name WriteError = ''WriteError''"
| "class_name CloseError = ''CloseError''"
| "class_name ProtocolError = ''ProtocolError''"
| "class_name LocalProtocolError = ''LocalProtocolError''"
| "class_name RemoteProtocolError = ''RemoteProtocolError''"
| "class_name ProxyError = ''ProxyError''"
| "class_name UnsupportedProtocol = ''UnsupportedProtocol''"
| "class_name DecodingError = ''DecodingError''"
| "class_name TooManyRedirects = ''TooManyRedirects''"
| "class_name InvalidURL = ''InvalidURL''"
| "class_name CookieConflict = ''CookieConflict''"
| "class_name StreamError = ''StreamError''"
| "class_name (Subclass name base) = name"

text \<open>
  An \<open>httpx.Response\<close> as the server reads it: the status code, the headers (names in
  lower case, as \<open>httpx\<close> looks them up), the body text, and what \<open>response.json()\<close>
  gives: the parsed value, or the class and message of the exception it raises.
\<close>

record response =
  status_code :: int
  headers :: "(string \<times> string) list"
  response_text :: string
  response_json :: "(pyclass \<times> string) + json"

definition headers_get :: "(string \<times> string) list \<Rightarrow> string \<Rightarrow> string \<Rightarrow> string" where
  "headers_get h k dflt = (case map_of h k of None \<Rightarrow> dflt | Some v \<Rightarrow> v)"

text \<open>
  An exception object is either an \<open>httpx.HTTPStatusError\<close>, which carries the response,
  or an object of another class with the text \<open>str(e)\<close> gives for it.
\<close>

datatype exn = HTTPStatusError response | Exc pyclass string


section \<open>Configuration and transport\<close>

record request =
  request_method :: string
  request_url :: string
  request_headers :: "(string \<times> string) list"
  request_json :: "json option"
  timeout :: nat

text \<open>What \<open>client.request\<close> does with a request: it raises, or it returns a response.\<close>

datatype outcome = Raises pyclass string | Responds response

text \<open>
  The two module globals \<open>API_BASE_URL\<close> and \<open>API_KEY\<close> and the behaviour of the
  transport.  The requests a call has issued are threaded through as a list.
\<close>

record env =
  API_BASE_URL :: string
  API_KEY :: string
  network :: "request \<Rightarrow> outcome"


section \<open>Shared utilities\<close>

definition require_api_key :: "env \<Rightarrow> exn + unit" where
  "require_api_key e =
     (if strip (API_KEY e) = []
      then Inl (Exc RuntimeError
             ''ANYTHINGLLM_API_KEY is not set. Configure it before using this MCP server.'')
      else Inr ())"

definition as_dict :: "json \<Rightarrow> string \<Rightarrow> exn + (string \<times> json) list" where
  "as_dict payload endpoint =
     (case payload of
        JObject d \<Rightarrow> Inr d
      | _ \<Rightarrow> Inl (Exc TypeError
               (''Unexpected response type from ''
                @ [CHR 0x27] @ endpoint @ [CHR 0x27] @ ''. ''
                @ ''Expected object, got '' @ py_type_name payload @ ''.'')))"

definition validate_range :: "string \<Rightarrow> pynum \<Rightarrow> pynum \<Rightarrow> pynum \<Rightarrow> exn + unit" where
  "validate_range name val minimum maximum =
     (if num_lt val minimum \<or> num_lt maximum val
      then Inl (Exc ValueError
             (name @ '' must be between '' @ str_num minimum @ '' and '' @ str_num maximum @ ''.''))
      else Inr ())"

text \<open>
  \<open>response.raise_for_status()\<close> raises \<open>httpx.HTTPStatusError\<close> unless the status is
  2xx.  \<open>_api\<close> checks the credential, builds the request, sends it once and reads the
  answer; the query parameters are left out, since no tool passes any.
\<close>

definition is_success :: "response \<Rightarrow> bool" where
  "is_success r = (200 \<le> status_code r \<and> status_code r \<le> 299)"

definition build_request :: "env \<Rightarrow> string \<Rightarrow> string \<Rightarrow> json option \<Rightarrow> request" where
  "build_request e endpoint meth body =
     \<lparr> request_method = meth,
       request_url = API_BASE_URL e @ ''/api/v1'' @ endpoint,
       request_headers =
         [(''Authorization'', ''Bearer '' @ API_KEY e),
          (''Content-Type'', ''application/json''),
          (''Accept'', ''application/json'')],
       request_json = body,
       timeout = 180 \<rparr>"

definition api ::
  "env \<Rightarrow> string \<Rightarrow> string \<Rightarrow> json option \<Rightarrow> request list \<Rightarrow> (exn + json) \<times> request list" where
  "api e endpoint meth body sent =
     (case require_api_key e of
        Inl err \<Rightarrow> (Inl err, sent)
      | Inr _ \<Rightarrow>
          (let req = build_request e endpoint meth body
           in case network e req of
                Raises c m \<Rightarrow> (Inl (Exc c m), sent @ [req])
              | Responds resp \<Rightarrow>
                  (if \<not> is_success resp then (Inl (HTTPStatusError resp), sent @ [req])
                   else
                     let content_type = headers_get (headers resp) ''content-type'' ''''
                     in if contains ''application/json'' content_type
                        then (case response_json resp of
                                Inl (c, m) \<Rightarrow> (Inl (Exc c m), sent @ [req])
                              | Inr v \<Rightarrow> (Inr v, sent @ [req]))
                        else (Inr (JString (response_text resp)), sent @ [req]))))"

definition messages :: "int \<Rightarrow> string option" where
  "messages =
     map_of
       [(401, ''Authentication failed. Check your ANYTHINGLLM_API_KEY.''),
        (403, ''Permission denied. Your API key may lack required permissions.''),
        (404, ''Resource not found. Check the slug or ID.''),
        (429, ''Rate limit exceeded. Wait before retrying.''),
        (500, ''Internal server error in AnythingLLM. Check LLM provider connectivity.'')]"

fun handle_error :: "env \<Rightarrow> exn \<Rightarrow> string" where
  "handle_error e (HTTPStatusError r) =
     (let status = status_code r;
          detail = (case response_json r of Inr v \<Rightarrow> v | Inl _ \<Rightarrow> JString (response_text r));
          msg = (case messages status of
                   Some m \<Rightarrow> m
                 | None \<Rightarrow> ''API error (HTTP '' @ str_int status @ '').'')
      in ''Error: '' @ msg @ [CHR 0x0A] @ ''Details: ''
         @ (case detail of JObject d \<Rightarrow> json_dumps detail | _ \<Rightarrow> py_str detail))"
| "handle_error e (Exc c m) =
     (if issubclass c RuntimeError then ''Error: '' @ m
      else if issubclass c TimeoutException
        then ''Error: Request timed out. AnythingLLM may be busy or unreachable.''
      else if issubclass c RequestError then ''Error: Request failed: '' @ m
      else if issubclass c ConnectError
        then ''Error: Cannot connect to AnythingLLM at '' @ API_BASE_URL e @ ''. Is it running?''
      else ''Error: '' @ class_name c @ '': '' @ m)"


section \<open>Python operations on JSON values\<close>

text \<open>
  The tools call \<open>.get\<close>, \<open>len\<close> and \<open>for\<close> on whatever the backend sent.  On a value of
  the wrong type Python raises; the class and the message are those of CPython.
\<close>

fun py_get :: "json \<Rightarrow> string \<Rightarrow> json \<Rightarrow> exn + json" where
  "py_get (JObject d) k dflt = Inr (dict_get d k dflt)"
| "py_get v k dflt =
     Inl (Exc AttributeError
       ([CHR 0x27] @ py_type_name v @ [CHR 0x27] @ '' object has no attribute ''
        @ [CHR 0x27] @ ''get'' @ [CHR 0x27]))"

fun py_len :: "json \<Rightarrow> exn + nat" where
  "py_len (JString s) = Inr (length s)"
| "py_len (JArray xs) = Inr (length xs)"
| "py_len (JObject d) = Inr (length d)"
| "py_len v =
     Inl (Exc TypeError
       (''object of type '' @ [CHR 0x27] @ py_type_name v @ [CHR 0x27] @ '' has no len()''))"

fun py_iter :: "json \<Rightarrow> exn + json list" where
  "py_iter (JString s) = Inr (map (\<lambda>c. JString [c]) s)"
| "py_iter (JArray xs) = Inr xs"
| "py_iter (JObject d) = Inr (map (\<lambda>kv. JString (fst kv)) d)"
| "py_iter v =
     Inl (Exc TypeError ([CHR 0x27] @ py_type_name v @ [CHR 0x27] @ '' object is not iterable''))"


section \<open>Control flow of a tool\<close>

text \<open>
  \<open>bnd\<close> sequences two steps that may raise.  \<open>before_request\<close> is a step made before the
  dispatcher is called: when it raises, nothing has been sent.  \<open>and_then\<close> continues
  with the dispatcher's payload.  \<open>except_handler\<close> is the clause
  \<open>except Exception as e: return _handle_error(e)\<close> that closes every tool.
\<close>

definition bnd :: "exn + 'a \<Rightarrow> ('a \<Rightarrow> exn + 'b) \<Rightarrow> exn + 'b" where
  "bnd r f = (case r of Inl err \<Rightarrow> Inl err | Inr x \<Rightarrow> f x)"

definition before_request ::
  "exn + 'a \<Rightarrow> request list \<Rightarrow> ((exn + 'b) \<times> request list) \<Rightarrow> (exn + 'b) \<times> request list" where
  "before_request r sent k = (case r of Inl err \<Rightarrow> (Inl err, sent) | Inr x \<Rightarrow> k)"

definition and_then ::
  "(exn + 'a) \<times> request list \<Rightarrow> ('a \<Rightarrow> exn + 'b) \<Rightarrow> (exn + 'b) \<times> request list" where
  "and_then r f = (case fst r of Inl err \<Rightarrow> (Inl err, snd r) | Inr x \<Rightarrow> (f x, snd r))"

definition except_handler :: "env \<Rightarrow> (exn + string) \<times> request list \<Rightarrow> string \<times> request list" where
  "except_handler e r =
     (case fst r of Inl err \<Rightarrow> (handle_error e err, snd r) | Inr out \<Rightarrow> (out, snd r))"

datatype ChatMode = CHAT | QUERY

fun ChatMode_value :: "ChatMode \<Rightarrow> string" where
  "ChatMode_value CHAT = ''chat''"
| "ChatMode_value QUERY = ''query''"

definition float_0 :: pyfloat where
  "float_0 = PyFloat (Finite 0) ''0.0''"

definition float_1 :: pyfloat where
  "float_1 = PyFloat (Finite 1) ''1.0''"

text \<open>\<open>if x is not None: _validate_range(...)\<close>\<close>

fun validate_opt :: "string \<Rightarrow> pynum option \<Rightarrow> pynum \<Rightarrow> pynum \<Rightarrow> exn + unit" where
  "validate_opt name None minimum maximum = Inr ()"
| "validate_opt name (Some v) minimum maximum = validate_range name v minimum maximum"

text \<open>\<open>{k: v for k, v in all_params.items() if v is not None}\<close>\<close>

fun drop_none :: "(string \<times> json option) list \<Rightarrow> (string \<times> json) list" where
  "drop_none [] = []"
| "drop_none ((k, None) # rest) = drop_none rest"
| "drop_none ((k, Some v) # rest) = (k, v) # drop_none rest"


section \<open>Tools\<close>

text \<open>
  Each tool is given twice: \<open>X_try\<close> is the body of its \<open>try\<close> block, which gives the
  output or raises, and \<open>X\<close> is the tool, the body under its \<open>except\<close> clause.  Both take
  the requests issued so far and give them back with those of the call appended.
\<close>

subsection \<open>Authentication\<close>

definition check_auth_try :: "env \<Rightarrow> request list \<Rightarrow> (exn + string) \<times> request list" where
  "check_auth_try e sent =
     and_then (api e ''/auth'' ''GET'' None sent) (\<lambda>result. Inr (json_response result))"

definition check_auth :: "env \<Rightarrow> request list \<Rightarrow> string \<times> request list" where
  "check_auth e sent = except_handler e (check_auth_try e sent)"

subsection \<open>Workspaces\<close>

definition workspace_summary :: "json \<Rightarrow> exn + json" where
  "workspace_summary ws =
     bnd (py_get ws ''name'' JNull) (\<lambda>name.
     bnd (py_get ws ''slug'' JNull) (\<lambda>slug.
     bnd (py_get ws ''chatMode'' (JString ''chat'')) (\<lambda>chatMode.
     bnd (py_get ws ''vectorSearchMode'' JNull) (\<lambda>vectorSearchMode.
     bnd (py_get ws ''threads'' (JArray [])) (\<lambda>threads.
     bnd (py_len threads) (\<lambda>n.
     bnd (py_get ws ''createdAt'' JNull) (\<lambda>createdAt.
     Inr (JObject
       [(''name'', name),
        (''slug'', slug),
        (''chatMode'', chatMode),
        (''vectorSearchMode'', vectorSearchMode),
        (''threads'', JInt (int n)),
        (''createdAt'', createdAt)]))))))))"

fun summarize :: "json list \<Rightarrow> json list \<Rightarrow> exn + json list" where
  "summarize [] summary = Inr summary"
| "summarize (ws # rest) summary =
     bnd (workspace_summary ws) (\<lambda>entry. summarize rest (summary @ [entry]))"

definition list_workspaces_try :: "env \<Rightarrow> request list \<Rightarrow> (exn + string) \<times> request list" where
  "list_workspaces_try e sent =
     and_then (api e ''/workspaces'' ''GET'' None sent) (\<lambda>payload.
       bnd (as_dict payload ''/workspaces'') (\<lambda>result.
       bnd (py_iter (dict_get result ''workspaces'' (JArray []))) (\<lambda>workspaces.
       bnd (summarize workspaces []) (\<lambda>summary.
       Inr (json_response
         (JObject [(''total'', JInt (int (length summary))), (''workspaces'', JArray summary)]))))))"

definition list_workspaces :: "env \<Rightarrow> request list \<Rightarrow> string \<times> request list" where
  "list_workspaces e sent = except_handler e (list_workspaces_try e sent)"

definition get_workspace_try ::
  "env \<Rightarrow> string \<Rightarrow> request list \<Rightarrow> (exn + string) \<times> request list" where
  "get_workspace_try e slug sent =
     and_then (api e (''/workspace/'' @ slug) ''GET'' None sent)
       (\<lambda>result. Inr (json_response result))"

definition get_workspace :: "env \<Rightarrow> string \<Rightarrow> request list \<Rightarrow> string \<times> request list" where
  "get_workspace e slug sent = except_handler e (get_workspace_try e slug sent)"

definition create_workspace_try ::
  "env \<Rightarrow> string \<Rightarrow> request list \<Rightarrow> (exn + string) \<times> request list" where
  "create_workspace_try e name sent =
     and_then (api e ''/workspace/new'' ''POST'' (Some (JObject [(''name'', JString name)])) sent)
       (\<lambda>result. Inr (json_response result))"

definition create_workspace :: "env \<Rightarrow> string \<Rightarrow> request list \<Rightarrow> string \<times> request list" where
  "create_workspace e name sent = except_handler e (create_workspace_try e name sent)"

definition update_workspace_try ::
  "env \<Rightarrow> string \<Rightarrow> string option \<Rightarrow> pyfloat option \<Rightarrow> int option \<Rightarrow> string option
     \<Rightarrow> pyfloat option \<Rightarrow> int option \<Rightarrow> ChatMode option
     \<Rightarrow> request list \<Rightarrow> (exn + string) \<times> request list" where
  "update_workspace_try e slug name openAiTemp openAiHistory openAiPrompt similarityThreshold
       topN chatMode sent =
     before_request
       (validate_opt ''openAiTemp'' (map_option NFloat openAiTemp) (NFloat float_0) (NFloat float_1))
       sent
    (before_request
       (validate_opt ''openAiHistory'' (map_option NInt openAiHistory) (NInt 0) (NInt 100))
       sent
    (before_request
       (validate_opt ''similarityThreshold'' (map_option NFloat similarityThreshold)
          (NFloat float_0) (NFloat float_1))
       sent
    (before_request
       (validate_opt ''topN'' (map_option NInt topN) (NInt 1) (NInt 20))
       sent
       (let all_params =
              [(''name'', map_option JString name),
               (''openAiTemp'', map_option JFloat openAiTemp),
               (''openAiHistory'', map_option JInt openAiHistory),
               (''openAiPrompt'', map_option JString openAiPrompt),
               (''similarityThreshold'', map_option JFloat similarityThreshold),
               (''topN'', map_option JInt topN),
               (''chatMode'', map_option (\<lambda>m. JString (ChatMode_value m)) chatMode)];
            updates = drop_none all_params
        in if updates = [] then (Inr ''Error: No updates provided.'', sent)
           else and_then
                  (api e (''/workspace/'' @ slug @ ''/update'') ''POST'' (Some (JObject updates)) sent)
                  (\<lambda>result. Inr (json_response result))))))"

definition update_workspace ::
  "env \<Rightarrow> string \<Rightarrow> string option \<Rightarrow> pyfloat option \<Rightarrow> int option \<Rightarrow> string option
     \<Rightarrow> pyfloat option \<Rightarrow> int option \<Rightarrow> ChatMode option
     \<Rightarrow> request list \<Rightarrow> string \<times> request list" where
  "update_workspace e slug name openAiTemp openAiHistory openAiPrompt similarityThreshold
       topN chatMode sent =
     except_handler e
       (update_workspace_try e slug name openAiTemp openAiHistory openAiPrompt
          similarityThreshold topN chatMode sent)"

definition delete_workspace_try ::
  "env \<Rightarrow> string \<Rightarrow> request list \<Rightarrow> (exn + string) \<times> request list" where
  "delete_workspace_try e slug sent =
     and_then (api e (''/workspace/'' @ slug) ''DELETE'' None sent)
       (\<lambda>result. Inr (''Workspace '' @ [CHR 0x27] @ slug @ [CHR 0x27] @ '' deleted successfully.''))"

definition delete_workspace :: "env \<Rightarrow> string \<Rightarrow> request list \<Rightarrow> string \<times> request list" where
  "delete_workspace e slug sent = except_handler e (delete_workspace_try e slug sent)"

subsection \<open>Chat\<close>

definition chat_with_workspace_try ::
  "env \<Rightarrow> string \<Rightarrow> string \<Rightarrow> ChatMode \<Rightarrow> request list \<Rightarrow> (exn + string) \<times> request list" where
  "chat_with_workspace_try e slug message mode sent =
     and_then
       (api e (''/workspace/'' @ slug @ ''/chat'') ''POST''
          (Some (JObject [(''message'', JString message), (''mode'', JString (ChatMode_value mode))]))
          sent)
       (\<lambda>result. Inr (json_response result))"

definition chat_with_workspace ::
  "env \<Rightarrow> string \<Rightarrow> string \<Rightarrow> ChatMode \<Rightarrow> request list \<Rightarrow> string \<times> request list" where
  "chat_with_workspace e slug message mode sent =
     except_handler e (chat_with_workspace_try e slug message mode sent)"

definition get_chat_history_try ::
  "env \<Rightarrow> string \<Rightarrow> request list \<Rightarrow> (exn + string) \<times> request list" where
  "get_chat_history_try e slug sent =
     and_then (api e (''/workspace/'' @ slug @ ''/chats'') ''GET'' None sent)
       (\<lambda>result. Inr (json_response result))"

definition get_chat_history :: "env \<Rightarrow> string \<Rightarrow> request list \<Rightarrow> string \<times> request list" where
  "get_chat_history e slug sent = except_handler e (get_chat_history_try e slug sent)"

subsection \<open>Workspace threads\<close>

definition create_thread_try ::
  "env \<Rightarrow> string \<Rightarrow> string option \<Rightarrow> request list \<Rightarrow> (exn + string) \<times> request list" where
  "create_thread_try e slug name sent =
     (let body = (case name of
                    None \<Rightarrow> []
                  | Some n \<Rightarrow> if n = [] then [] else [(''name'', JString n)])
      in and_then (api e (''/workspace/'' @ slug @ ''/thread/new'') ''POST'' (Some (JObject body)) sent)
           (\<lambda>result. Inr (json_response result)))"

definition create_thread ::
  "env \<Rightarrow> string \<Rightarrow> string option \<Rightarrow> request list \<Rightarrow> string \<times> request list" where
  "create_thread e slug name sent = except_handler e (create_thread_try e slug name sent)"

definition delete_thread_try ::
  "env \<Rightarrow> string \<Rightarrow> string \<Rightarrow> request list \<Rightarrow> (exn + string) \<times> request list" where
  "delete_thread_try e slug thread_slug sent =
     and_then (api e (''/workspace/'' @ slug @ ''/thread/'' @ thread_slug) ''DELETE'' None sent)
       (\<lambda>result. Inr (''Thread '' @ [CHR 0x27] @ thread_slug @ [CHR 0x27]
                        @ '' deleted from workspace '' @ [CHR 0x27] @ slug @ [CHR 0x27] @ ''.''))"

definition delete_thread ::
  "env \<Rightarrow> string \<Rightarrow> string \<Rightarrow> request list \<Rightarrow> string \<times> request list" where
  "delete_thread e slug thread_slug sent = except_handler e (delete_thread_try e slug thread_slug sent)"

definition chat_in_thread_try ::
  "env \<Rightarrow> string \<Rightarrow> string \<Rightarrow> string \<Rightarrow> ChatMode \<Rightarrow> request list
     \<Rightarrow> (exn + string) \<times> request list" where
  "chat_in_thread_try e slug thread_slug message mode sent =
     and_then
       (api e (''/workspace/'' @ slug @ ''/thread/'' @ thread_slug @ ''/chat'') ''POST''
          (Some (JObject [(''message'', JString message), (''mode'', JString (ChatMode_value mode))]))
          sent)
       (\<lambda>result. Inr (json_response result))"

definition chat_in_thread ::
  "env \<Rightarrow> string \<Rightarrow> string \<Rightarrow> string \<Rightarrow> ChatMode \<Rightarrow> request list \<Rightarrow> string \<times> request list" where
  "chat_in_thread e slug thread_slug message mode sent =
     except_handler e (chat_in_thread_try e slug thread_slug message mode sent)"

definition get_thread_chats_try ::
  "env \<Rightarrow> string \<Rightarrow> string \<Rightarrow> request list \<Rightarrow> (exn + string) \<times> request list" where
  "get_thread_chats_try e slug thread_slug sent =
     and_then
       (api e (''/workspace/'' @ slug @ ''/thread/'' @ thread_slug @ ''/chats'') ''GET'' None sent)
       (\<lambda>result. Inr (json_response result))"

definition get_thread_chats ::
  "env \<Rightarrow> string \<Rightarrow> string \<Rightarrow> request list \<Rightarrow> string \<times> request list" where
  "get_thread_chats e slug thread_slug sent =
     except_handler e (get_thread_chats_try e slug thread_slug sent)"

subsection \<open>Documents\<close>

definition list_documents_try :: "env \<Rightarrow> request list \<Rightarrow> (exn + string) \<times> request list" where
  "list_documents_try e sent =
     and_then (api e ''/documents'' ''GET'' None sent) (\<lambda>result. Inr (json_response result))"

definition list_documents :: "env \<Rightarrow> request list \<Rightarrow> string \<times> request list" where
  "list_documents e sent = except_handler e (list_documents_try e sent)"

definition get_accepted_file_types_try ::
  "env \<Rightarrow> request list \<Rightarrow> (exn + string) \<times> request list" where
  "get_accepted_file_types_try e sent =
     and_then (api e ''/document/accepted-file-types'' ''GET'' None sent)
       (\<lambda>result. Inr (json_response result))"

definition get_accepted_file_types :: "env \<Rightarrow> request list \<Rightarrow> string \<times> request list" where
  "get_accepted_file_types e sent = except_handler e (get_accepted_file_types_try e sent)"

definition upload_link_try ::
  "env \<Rightarrow> string \<Rightarrow> request list \<Rightarrow> (exn + string) \<times> request list" where
  "upload_link_try e link sent =
     (if \<not> (startswith ''http://'' link \<or> startswith ''https://'' link)
      then (Inr ''Error: Link must start with http:// or https://'', sent)
      else and_then
             (api e ''/document/upload-link'' ''POST'' (Some (JObject [(''link'', JString link)])) sent)
             (\<lambda>result. Inr (json_response result)))"

definition upload_link :: "env \<Rightarrow> string \<Rightarrow> request list \<Rightarrow> string \<times> request list" where
  "upload_link e link sent = except_handler e (upload_link_try e link sent)"

definition upload_raw_text_try ::
  "env \<Rightarrow> string \<Rightarrow> string \<Rightarrow> request list \<Rightarrow> (exn + string) \<times> request list" where
  "upload_raw_text_try e text_content title sent =
     and_then
       (api e ''/document/raw-text'' ''POST''
          (Some (JObject [(''textContent'', JString text_content),
                          (''metadata'', JObject [(''title'', JString title)])]))
          sent)
       (\<lambda>result. Inr (json_response result))"

definition upload_raw_text ::
  "env \<Rightarrow> string \<Rightarrow> string \<Rightarrow> request list \<Rightarrow> string \<times> request list" where
  "upload_raw_text e text_content title sent =
     except_handler e (upload_raw_text_try e text_content title sent)"

text \<open>\<open>if adds: body["adds"] = adds\<close>: an absent and an empty list are both left out.\<close>

fun list_entry :: "string \<Rightarrow> string list option \<Rightarrow> (string \<times> json) list" where
  "list_entry k None = []"
| "list_entry k (Some xs) = (if xs = [] then [] else [(k, JArray (map JString xs))])"

definition update_embeddings_try ::
  "env \<Rightarrow> string \<Rightarrow> string list option \<Rightarrow> string list option \<Rightarrow> request list
     \<Rightarrow> (exn + string) \<times> request list" where
  "update_embeddings_try e slug adds deletes sent =
     (let body = list_entry ''adds'' adds @ list_entry ''deletes'' deletes
      in if body = []
         then (Inr (''Error: Provide at least '' @ [CHR 0x27] @ ''adds'' @ [CHR 0x27] @ '' or ''
                    @ [CHR 0x27] @ ''deletes'' @ [CHR 0x27] @ ''.''), sent)
         else and_then
                (api e (''/workspace/'' @ slug @ ''/update-embeddings'') ''POST'' (Some (JObject body))
                   sent)
                (\<lambda>result. Inr (json_response result)))"

definition update_embeddings ::
  "env \<Rightarrow> string \<Rightarrow> string list option \<Rightarrow> string list option \<Rightarrow> request list
     \<Rightarrow> string \<times> request list" where
  "update_embeddings e slug adds deletes sent =
     except_handler e (update_embeddings_try e slug adds deletes sent)"

subsection \<open>Search\<close>

definition search_workspace_try ::
  "env \<Rightarrow> string \<Rightarrow> string \<Rightarrow> int \<Rightarrow> pyfloat option \<Rightarrow> request list
     \<Rightarrow> (exn + string) \<times> request list" where
  "search_workspace_try e slug query top_n score_threshold sent =
     before_request (validate_range ''top_n'' (NInt top_n) (NInt 1) (NInt 20)) sent
    (before_request
       (validate_opt ''score_threshold'' (map_option NFloat score_threshold)
          (NFloat float_0) (NFloat float_1))
       sent
       (let body = [(''query'', JString query), (''topN'', JInt top_n)]
                   @ (case score_threshold of
                        None \<Rightarrow> []
                      | Some t \<Rightarrow> [(''scoreThreshold'', JFloat t)])
        in and_then
             (api e (''/workspace/'' @ slug @ ''/vector-search'') ''POST'' (Some (JObject body)) sent)
             (\<lambda>result. Inr (json_response result))))"

definition search_workspace ::
  "env \<Rightarrow> string \<Rightarrow> string \<Rightarrow> int \<Rightarrow> pyfloat option \<Rightarrow> request list \<Rightarrow> string \<times> request list" where
  "search_workspace e slug query top_n score_threshold sent =
     except_handler e (search_workspace_try e slug query top_n score_threshold sent)"

subsection \<open>System\<close>

definition safe_keys :: "string list" where
  "safe_keys =
     [''LLMProvider'', ''LLMModel'', ''VectorDB'', ''EmbeddingEngine'',
      ''EmbeddingModelPref'', ''EmbeddingModelMaxChunkLength'',
      ''MultiUserMode'', ''DisableTelemetry'', ''WhisperProvider'',
      ''TextToSpeechProvider'', ''OllamaLLMBasePath'', ''OllamaLLMModelPref'']"

text \<open>\<open>{k: settings.get(k) for k in safe_keys if settings.get(k) is not None}\<close>\<close>

fun filter_settings :: "json \<Rightarrow> string list \<Rightarrow> exn + (string \<times> json) list" where
  "filter_settings settings [] = Inr []"
| "filter_settings settings (k # ks) =
     bnd (py_get settings k JNull) (\<lambda>v.
     bnd (filter_settings settings ks) (\<lambda>rest.
     Inr (if v \<noteq> JNull then (k, v) # rest else rest)))"

definition get_system_settings_try :: "env \<Rightarrow> request list \<Rightarrow> (exn + string) \<times> request list" where
  "get_system_settings_try e sent =
     and_then (api e ''/system'' ''GET'' None sent) (\<lambda>payload.
       bnd (as_dict payload ''/system'') (\<lambda>result.
       bnd (filter_settings (dict_get result ''settings'' (JObject [])) safe_keys) (\<lambda>filtered.
       Inr (json_response (JObject [(''settings'', JObject filtered)])))))"

definition get_system_settings :: "env \<Rightarrow> request list \<Rightarrow> string \<times> request list" where
  "get_system_settings e sent = except_handler e (get_system_settings_try e sent)"

definition get_vector_count_try :: "env \<Rightarrow> request list \<Rightarrow> (exn + string) \<times> request list" where
  "get_vector_count_try e sent =
     and_then (api e ''/system/vector-count'' ''GET'' None sent)
       (\<lambda>result. Inr (json_response result))"

definition get_vector_count :: "env \<Rightarrow> request list \<Rightarrow> string \<times> request list" where
  "get_vector_count e sent = except_handler e (get_vector_count_try e sent)"

definition export_chats_try :: "env \<Rightarrow> request list \<Rightarrow> (exn + string) \<times> request list" where
  "export_chats_try e sent =
     and_then (api e ''/system/export-chats'' ''GET'' None sent)
       (\<lambda>result. Inr (json_response result))"

definition export_chats :: "env \<Rightarrow> request list \<Rightarrow> string \<times> request list" where
  "export_chats e sent = except_handler e (export_chats_try e sent)"

subsection \<open>Embeds and models\<close>

definition list_embeds_try :: "env \<Rightarrow> request list \<Rightarrow> (exn + string) \<times> request list" where
  "list_embeds_try e sent =
     and_then (api e ''/embed'' ''GET'' None sent) (\<lambda>result. Inr (json_response result))"

definition list_embeds :: "env \<Rightarrow> request list \<Rightarrow> string \<times> request list" where
  "list_embeds e sent = except_handler e (list_embeds_try e sent)"

definition list_models_try :: "env \<Rightarrow> request list \<Rightarrow> (exn + string) \<times> request list" where
  "list_models_try e sent =
     and_then (api e ''/openai/models'' ''GET'' None sent) (\<lambda>result. Inr (json_response result))"

definition list_models :: "env \<Rightarrow> request list \<Rightarrow> string \<times> request list" where
  "list_models e sent = except_handler e (list_models_try e sent)"


section \<open>The tool catalogue\<close>

text \<open>
  The tools registered with \<open>mcp.tool\<close>, each with the arguments of its signature.
  \<open>call_tool\<close> runs the tool a call names; \<open>tool_try\<close> runs the body of its \<open>try\<close> block.
\<close>

datatype tool_call =
    CheckAuth
  | ListWorkspaces
  | GetWorkspace string
  | CreateWorkspace string
  | UpdateWorkspace string "string option" "pyfloat option" "int option" "string option"
      "pyfloat option" "int option" "ChatMode option"
  | DeleteWorkspace string
  | ChatWithWorkspace string string ChatMode
  | GetChatHistory string
  | CreateThread string "string option"
  | DeleteThread string string
  | ChatInThread string string string ChatMode
  | GetThreadChats string string
  | ListDocuments
  | GetAcceptedFileTypes
  | UploadLink string
  | UploadRawText string string
  | UpdateEmbeddings string "string list option" "string list option"
  | SearchWorkspace string string int "pyfloat option"
  | GetSystemSettings
  | GetVectorCount
  | ExportChats
  | ListEmbeds
  | ListModels

fun tool_try :: "env \<Rightarrow> tool_call \<Rightarrow> request list \<Rightarrow> (exn + string) \<times> request list" where
  "tool_try e CheckAuth sent = check_auth_try e sent"
| "tool_try e ListWorkspaces sent = list_workspaces_try e sent"
| "tool_try e (GetWorkspace slug) sent = get_workspace_try e slug sent"
| "tool_try e (CreateWorkspace name) sent = create_workspace_try e name sent"
| "tool_try e (UpdateWorkspace slug name openAiTemp openAiHistory openAiPrompt
       similarityThreshold topN chatMode) sent =
     update_workspace_try e slug name openAiTemp openAiHistory openAiPrompt
       similarityThreshold topN chatMode sent"
| "tool_try e (DeleteWorkspace slug) sent = delete_workspace_try e slug sent"
| "tool_try e (ChatWithWorkspace slug message mode) sent =
     chat_with_workspace_try e slug message mode sent"
| "tool_try e (GetChatHistory slug) sent = get_chat_history_try e slug sent"
| "tool_try e (CreateThread slug name) sent = create_thread_try e slug name sent"
| "tool_try e (DeleteThread slug thread_slug) sent = delete_thread_try e slug thread_slug sent"
| "tool_try e (ChatInThread slug thread_slug message mode) sent =
     chat_in_thread_try e slug thread_slug message mode sent"
| "tool_try e (GetThreadChats slug thread_slug) sent = get_thread_chats_try e slug thread_slug sent"
| "tool_try e ListDocuments sent = list_documents_try e sent"
| "tool_try e GetAcceptedFileTypes sent = get_accepted_file_types_try e sent"
| "tool_try e (UploadLink link) sent = upload_link_try e link sent"
| "tool_try e (UploadRawText text_content title) sent =
     upload_raw_text_try e text_content title sent"
| "tool_try e (UpdateEmbeddings slug adds deletes) sent =
     update_embeddings_try e slug adds deletes sent"
| "tool_try e (SearchWorkspace slug query top_n score_threshold) sent =
     search_workspace_try e slug query top_n score_threshold sent"
| "tool_try e GetSystemSettings sent = get_system_settings_try e sent"
| "tool_try e GetVectorCount sent = get_vector_count_try e sent"
| "tool_try e ExportChats sent = export_chats_try e sent"
| "tool_try e ListEmbeds sent = list_embeds_try e sent"
| "tool_try e ListModels sent = list_models_try e sent"

fun call_tool :: "env \<Rightarrow> tool_call \<Rightarrow> request list \<Rightarrow> string \<times> request list" where
  "call_tool e CheckAuth sent = check_auth e sent"
| "call_tool e ListWorkspaces sent = list_workspaces e sent"
| "call_tool e (GetWorkspace slug) sent = get_workspace e slug sent"
| "call_tool e (CreateWorkspace name) sent = create_workspace e name sent"
| "call_tool e (UpdateWorkspace slug name openAiTemp openAiHistory openAiPrompt
       similarityThreshold topN chatMode) sent =
     update_workspace e slug name openAiTemp openAiHistory openAiPrompt
       similarityThreshold topN chatMode sent"
| "call_tool e (DeleteWorkspace slug) sent = delete_workspace e slug sent"
| "call_tool e (ChatWithWorkspace slug message mode) sent =
     chat_with_workspace e slug message mode sent"
| "call_tool e (GetChatHistory slug) sent = get_chat_history e slug sent"
| "call_tool e (CreateThread slug name) sent = create_thread e slug name sent"
| "call_tool e (DeleteThread slug thread_slug) sent = delete_thread e slug thread_slug sent"
| "call_tool e (ChatInThread slug thread_slug message mode) sent =
     chat_in_thread e slug thread_slug message mode sent"
| "call_tool e (GetThreadChats slug thread_slug) sent = get_thread_chats e slug thread_slug sent"
| "call_tool e ListDocuments sent = list_documents e sent"
| "call_tool e GetAcceptedFileTypes sent = get_accepted_file_types e sent"
| "call_tool e (UploadLink link) sent = upload_link e link sent"
| "call_tool e (UploadRawText text_content title) sent = upload_raw_text e text_content title sent"
| "call_tool e (UpdateEmbeddings slug adds deletes) sent =
     update_embeddings e slug adds deletes sent"
| "call_tool e (SearchWorkspace slug query top_n score_threshold) sent =
     search_workspace e slug query top_n score_threshold sent"
| "call_tool e GetSystemSettings sent = get_system_settings e sent"
| "call_tool e GetVectorCount sent = get_vector_count e sent"
| "call_tool e ExportChats sent = export_chats e sent"
| "call_tool e ListEmbeds sent = list_embeds e sent"
| "call_tool e ListModels sent = list_models e sent"

text \<open>
  The tools whose \<open>try\<close> block ends in \<open>return _json_response(result)\<close> on the
  dispatcher's payload as it came: all but the two that reshape it (workspace listing,
  system settings) and the two that answer with a sentence (the deletions).
\<close>

fun returns_payload :: "tool_call \<Rightarrow> bool" where
  "returns_payload ListWorkspaces = False"
| "returns_payload GetSystemSettings = False"
| "returns_payload (DeleteWorkspace slug) = False"
| "returns_payload (DeleteThread slug thread_slug) = False"
| "returns_payload call = True"

text \<open>
  The calls a tool turns down by its own argument checks, before it reaches the
  dispatcher: a number outside its range, an update or an embedding change with nothing
  in it, a link that is neither \<open>http://\<close> nor \<open>https://\<close>.
\<close>

fun out_of_range :: "pynum option \<Rightarrow> pynum \<Rightarrow> pynum \<Rightarrow> bool" where
  "out_of_range None minimum maximum = False"
| "out_of_range (Some v) minimum maximum = (num_lt v minimum \<or> num_lt maximum v)"

fun rejected_locally :: "tool_call \<Rightarrow> bool" where
  "rejected_locally (UpdateWorkspace slug name openAiTemp openAiHistory openAiPrompt
       similarityThreshold topN chatMode) =
     (out_of_range (map_option NFloat openAiTemp) (NFloat float_0) (NFloat float_1)
      \<or> out_of_range (map_option NInt openAiHistory) (NInt 0) (NInt 100)
      \<or> out_of_range (map_option NFloat similarityThreshold) (NFloat float_0) (NFloat float_1)
      \<or> out_of_range (map_option NInt topN) (NInt 1) (NInt 20)
      \<or> (name = None \<and> openAiTemp = None \<and> openAiHistory = None \<and> openAiPrompt = None
          \<and> similarityThreshold = None \<and> topN = None \<and> chatMode = None))"
| "rejected_locally (UploadLink link) =
     (\<not> (startswith ''http://'' link \<or> startswith ''https://'' link))"
| "rejected_locally (UpdateEmbeddings slug adds deletes) =
     ((adds = None \<or> adds = Some []) \<and> (deletes = None \<or> deletes = Some []))"
| "rejected_locally (SearchWorkspace slug query top_n score_threshold) =
     (out_of_range (Some (NInt top_n)) (NInt 1) (NInt 20)
      \<or> out_of_range (map_option NFloat score_threshold) (NFloat float_0) (NFloat float_1))"
| "rejected_locally call = False"


section \<open>Test doubles\<close>

text \<open>
  The environments of \<open>tests/test_anythingllm_mcp.py\<close>: the base URL of the tests, a
  credential, and a transport that answers every request with one response
  (\<open>respx\<close>'s \<open>respond\<close>) or fails every request with one exception (\<open>side_effect\<close>).
\<close>

definition respond :: "response \<Rightarrow> request \<Rightarrow> outcome" where
  "respond r req = Responds r"

definition side_effect :: "pyclass \<Rightarrow> string \<Rightarrow> request \<Rightarrow> outcome" where
  "side_effect c m req = Raises c m"

definition server :: "string \<Rightarrow> (request \<Rightarrow> outcome) \<Rightarrow> env" where
  "server key net = \<lparr> API_BASE_URL = ''http://localhost:3001'', API_KEY = key, network = net \<rparr>"

text \<open>
  A response with a JSON body (its text and the value it parses to) and one with a
  plain-text body, on which \<open>response.json()\<close> raises.
\<close>

definition json_reply :: "int \<Rightarrow> string \<Rightarrow> json \<Rightarrow> response" where
  "json_reply status body v =
     \<lparr> status_code = status,
       headers = [(''content-type'', ''application/json'')],
       response_text = body,
       response_json = Inr v \<rparr>"

definition text_reply :: "int \<Rightarrow> string \<Rightarrow> response" where
  "text_reply status body =
     \<lparr> status_code = status,
       headers = [(''content-type'', ''text/plain; charset=utf-8'')],
       response_text = body,
       response_json = Inl (JSONDecodeError, ''Expecting value: line 1 column 1 (char 0)'') \<rparr>"


section \<open>Facts about the shared utilities\<close>

lemma strip_blank: "\<forall>c\<in>set s. isspace c \<Longrightarrow> strip s = []"
proof -
  assume "\<forall>c\<in>set s. isspace c"
  then have dw: "dropWhile isspace s = []"
    by (simp add: dropWhile_eq_Nil_conv)
  show ?thesis
    unfolding strip_def dw by simp
qed

lemma strip_nonblank: "c \<in> set s \<Longrightarrow> \<not> isspace c \<Longrightarrow> strip s \<noteq> []"
proof -
  assume c: "c \<in> set s" and n: "\<not> isspace c"
  let ?t = "dropWhile isspace s"
  have ne: "?t \<noteq> []"
    using c n by (auto simp: dropWhile_eq_Nil_conv)
  then have "\<not> isspace (hd ?t)"
    by (rule hd_dropWhile)
  moreover have "hd ?t \<in> set (rev ?t)"
    using ne by simp
  ultimately have "dropWhile isspace (rev ?t) \<noteq> []"
    by (auto simp: dropWhile_eq_Nil_conv)
  then show ?thesis
    by (simp add: strip_def)
qed

lemma handle_error_prefix: "startswith ''Error: '' (handle_error e x)"
  by (cases x) (simp_all add: startswith_def Let_def)

lemma sub_timeout: "issubclass c TimeoutException \<Longrightarrow> \<not> issubclass c RuntimeError"
  by (induction c) (simp_all add: issubclass_def)

lemma api_blank:
  "strip (API_KEY e) = [] \<Longrightarrow>
   api e ep m b sent =
     (Inl (Exc RuntimeError
        ''ANYTHINGLLM_API_KEY is not set. Configure it before using this MCP server.''), sent)"
  by (simp add: api_def require_api_key_def)

lemma api_Inr:
  "api e ep m b sent = (Inr v, s) \<Longrightarrow>
   \<exists>resp. s = sent @ [build_request e ep m b]
     \<and> network e (build_request e ep m b) = Responds resp \<and> is_success resp"
  by (auto simp: api_def Let_def split: sum.splits outcome.splits prod.splits if_splits)

lemma api_sent_request:
  "api e ep m b sent = (r, sent @ [req]) \<Longrightarrow> network e req = Responds resp \<Longrightarrow>
   is_success resp \<Longrightarrow>
   req = build_request e ep m b \<and>
   r = (if contains ''application/json'' (headers_get (headers resp) ''content-type'' [])
        then (case response_json resp of Inr v \<Rightarrow> Inr v | Inl (c, m) \<Rightarrow> Inl (Exc c m))
        else Inr (JString (response_text resp)))"
  by (auto simp: api_def Let_def split: sum.splits outcome.splits prod.splits if_splits)

lemma and_then_api_Inr:
  "and_then (api e ep m b sent) f = (Inr out, s) \<Longrightarrow>
   \<exists>req resp. s = sent @ [req] \<and> network e req = Responds resp \<and> is_success resp"
  by (cases "api e ep m b sent") (auto simp: and_then_def split: sum.splits dest: api_Inr)

lemma before_request_Inr: "before_request r sent k = (Inr out, s) \<Longrightarrow> k = (Inr out, s)"
  by (simp add: before_request_def split: sum.splits)

lemmas tool_defs =
  check_auth_def list_workspaces_def get_workspace_def create_workspace_def
  update_workspace_def delete_workspace_def chat_with_workspace_def get_chat_history_def
  create_thread_def delete_thread_def chat_in_thread_def get_thread_chats_def
  list_documents_def get_accepted_file_types_def upload_link_def upload_raw_text_def
  update_embeddings_def search_workspace_def get_system_settings_def get_vector_count_def
  export_chats_def list_embeds_def list_models_def

lemmas try_defs =
  check_auth_try_def list_workspaces_try_def get_workspace_try_def create_workspace_try_def
  update_workspace_try_def delete_workspace_try_def chat_with_workspace_try_def
  get_chat_history_try_def create_thread_try_def delete_thread_try_def chat_in_thread_try_def
  get_thread_chats_try_def list_documents_try_def get_accepted_file_types_try_def
  upload_link_try_def upload_raw_text_try_def update_embeddings_try_def
  search_workspace_try_def get_system_settings_try_def get_vector_count_try_def
  export_chats_try_def list_embeds_try_def list_models_try_def

lemma call_tool_eq: "call_tool e call sent = except_handler e (tool_try e call sent)"
  by (cases call) (simp_all add: tool_defs)

lemma try_ok:
  "tool_try e call sent = (Inr out, s) \<Longrightarrow>
   startswith ''Error: '' out
   \<or> (\<exists>req resp. s = sent @ [req] \<and> network e req = Responds resp \<and> is_success resp)"
  by (cases call)
     (auto simp: try_defs Let_def startswith_def split: if_splits
           dest!: before_request_Inr dest: and_then_api_Inr)


section \<open>Error normalisation\<close>

text \<open>
  C1.  The claim: a connection failure (\<open>httpx.ConnectError\<close>) gets the fixed message that
  names the configured base URL, never the generic ``Request failed'' one.  The code
  tests \<open>httpx.RequestError\<close> before \<open>httpx.ConnectError\<close>, and a \<open>ConnectError\<close> is a
  \<open>RequestError\<close>: with a backend that refuses the connection, the authentication check
  answers with the generic message.
\<close>

theorem connect_error_gets_generic_message:
  "fst (check_auth
          (server ''test-token'' (side_effect ConnectError ''All connection attempts failed''))
          [])
     = ''Error: Request failed: All connection attempts failed''"
  by code_simp

text \<open>
  C9.  A timeout (\<open>httpx.TimeoutException\<close> or any class derived from it) is turned into
  the fixed message about a busy or unreachable service, which contains ``timed out'',
  although a timeout is a \<open>RequestError\<close> as well.
\<close>

theorem timeout_message:
  "issubclass c TimeoutException \<Longrightarrow>
   handle_error e (Exc c m) = ''Error: Request timed out. AnythingLLM may be busy or unreachable.''
   \<and> contains ''timed out'' (handle_error e (Exc c m))"
  by (simp add: sub_timeout startswith_def)

theorem timeout_message_witness:
  "issubclass ReadTimeout TimeoutException
   \<and> handle_error (server ''test-token'' (side_effect ReadTimeout ''timeout''))
       (Exc ReadTimeout ''timeout'')
     = ''Error: Request timed out. AnythingLLM may be busy or unreachable.''"
proof -
  have h: "issubclass ReadTimeout TimeoutException"
    by (simp add: issubclass_def)
  show ?thesis
    using h timeout_message[OF h] by simp
qed


section \<open>The credential check\<close>

text \<open>
  C10.  A credential made of whitespace only is treated as a missing one: the
  dispatcher raises the configuration error and the list of issued requests is
  unchanged.
\<close>

theorem blank_credential_is_missing:
  "\<forall>c \<in> set (API_KEY e). isspace c \<Longrightarrow>
   api e endpoint meth body sent =
     (Inl (Exc RuntimeError
        ''ANYTHINGLLM_API_KEY is not set. Configure it before using this MCP server.''), sent)"
  by (simp add: api_blank strip_blank)

theorem blank_credential_is_missing_witness:
  "api (server [CHR '' '', CHR 0x09, CHR 0x0A] (respond (text_reply 200 ''OK'')))
      ''/auth'' ''GET'' None [] =
     (Inl (Exc RuntimeError
        ''ANYTHINGLLM_API_KEY is not set. Configure it before using this MCP server.''), [])"
proof -
  have h: "\<forall>c \<in> set (API_KEY (server [CHR '' '', CHR 0x09, CHR 0x0A]
                                  (respond (text_reply 200 ''OK'')))). isspace c"
    by (simp add: server_def isspace_def)
  show ?thesis
    by (rule blank_credential_is_missing[OF h])
qed


section \<open>Tools never raise\<close>

text \<open>
  C8.  Whatever the \<open>try\<close> block of a tool does, the tool returns a string.  When the
  block raises, the tool returns what \<open>_handle_error\<close> makes of the exception, and that
  begins with ``Error: ''.  When the block returns, its string is the tool's output, and
  it either begins with ``Error: '' (the failure strings the tools write themselves) or a
  request was issued and the backend answered it with a 2xx response.
\<close>

theorem tools_never_raise:
  "(case tool_try e call sent of
      (Inl err, s) \<Rightarrow>
        call_tool e call sent = (handle_error e err, s)
        \<and> startswith ''Error: '' (handle_error e err)
    | (Inr out, s) \<Rightarrow>
        call_tool e call sent = (out, s)
        \<and> (startswith ''Error: '' out
           \<or> (\<exists>req resp. s = sent @ [req] \<and> network e req = Responds resp \<and> is_success resp)))"
proof (cases "tool_try e call sent")
  case (Pair r s)
  show ?thesis
  proof (cases r)
    case (Inl err)
    with Pair show ?thesis
      by (simp add: call_tool_eq except_handler_def handle_error_prefix)
  next
    case (Inr out)
    with Pair try_ok[of e call sent out s] show ?thesis
      by (simp add: call_tool_eq except_handler_def)
  qed
qed


section \<open>Search with a bound out of range\<close>

text \<open>
  C2, as the code has it.  A search whose \<open>top_n\<close> lies outside 1..20 issues no request
  and returns the validation message behind the name of its exception class:
  \<open>ValueError\<close> is none of the classes \<open>_handle_error\<close> knows, so the fallback branch
  formats it.
\<close>

theorem search_rejects_top_n:
  "top_n < 1 \<or> 20 < top_n \<Longrightarrow>
   search_workspace e slug query top_n score_threshold sent
     = (''Error: ValueError: top_n must be between 1 and 20.'', sent)"
  by (simp add: search_workspace_def search_workspace_try_def before_request_def
        validate_range_def num_lt_def except_handler_def issubclass_def str_int_def digit_def)

theorem search_rejects_top_n_witness:
  "((21::int) < 1 \<or> 20 < (21::int))
   \<and> search_workspace (server ''test-token'' (respond (text_reply 200 ''OK'')))
        ''demo'' ''query'' 21 None []
     = (''Error: ValueError: top_n must be between 1 and 20.'', [])"
proof -
  have h: "(21::int) < 1 \<or> 20 < (21::int)"
    by simp
  show ?thesis
    using h search_rejects_top_n[OF h] by simp
qed

text \<open>
  C2, as the claim states it, fails at \<open>top_n = 0\<close>: the output is not exactly
  ``Error: top_n must be between 1 and 20.''.
\<close>

theorem search_top_n_zero_output:
  "search_workspace (server ''test-token'' (respond (text_reply 200 ''OK'')))
      ''demo'' ''query'' 0 None []
     = (''Error: ValueError: top_n must be between 1 and 20.'', [])
   \<and> fst (search_workspace (server ''test-token'' (respond (text_reply 200 ''OK'')))
            ''demo'' ''query'' 0 None [])
     \<noteq> ''Error: top_n must be between 1 and 20.''"
  by code_simp


section \<open>HTTP status errors\<close>

lemma handle_status_error:
  "handle_error e (HTTPStatusError r) =
     ''Error: ''
     @ (if status_code r = 401 then ''Authentication failed. Check your ANYTHINGLLM_API_KEY.''
        else if status_code r = 403
          then ''Permission denied. Your API key may lack required permissions.''
        else if status_code r = 404 then ''Resource not found. Check the slug or ID.''
        else if status_code r = 429 then ''Rate limit exceeded. Wait before retrying.''
        else if status_code r = 500
          then ''Internal server error in AnythingLLM. Check LLM provider connectivity.''
        else ''API error (HTTP '' @ str_int (status_code r) @ '').'')
     @ [CHR 0x0A] @ ''Details: ''
     @ (case response_json r of
          Inl err \<Rightarrow> response_text r
        | Inr (JObject d) \<Rightarrow> json_dumps (JObject d)
        | Inr v \<Rightarrow> py_str v)"
  by (simp add: messages_def Let_def split: sum.splits json.splits)

lemma and_then_status_error:
  "and_then (api e ep m b sent) f = (r, sent @ [req]) \<Longrightarrow> network e req = Responds resp \<Longrightarrow>
   status_code resp < 200 \<or> 299 < status_code resp \<Longrightarrow> r = Inl (HTTPStatusError resp)"
  by (auto simp: and_then_def api_def Let_def is_success_def
           split: sum.splits outcome.splits prod.splits if_splits)

lemma tool_try_status_error:
  "tool_try e call sent = (r, sent @ [req]) \<Longrightarrow> network e req = Responds resp \<Longrightarrow>
   status_code resp < 200 \<or> 299 < status_code resp \<Longrightarrow> r = Inl (HTTPStatusError resp)"
  by (cases call)
     (auto simp: try_defs before_request_def Let_def split: sum.splits if_splits
           dest: and_then_status_error)

text \<open>
  C5, as the code has it.  Take any tool, a call of it that issued a request, and an
  answer to that request whose status is not 2xx.  The tool returns ``Error: '' and the
  fixed sentence of the five known codes, or ``API error (HTTP code).'' for any other
  code; the second line is ``Details: '' followed by the body text when the body is not
  JSON, by the compact \<open>json.dumps\<close> when it parses to an object, and by Python's \<open>str\<close>
  of the parsed value otherwise.
\<close>

theorem status_error_message:
  assumes "call_tool e call sent = (out, sent @ [req])"
      and "network e req = Responds resp"
      and "status_code resp < 200 \<or> 299 < status_code resp"
  shows "out =
     ''Error: ''
     @ (if status_code resp = 401 then ''Authentication failed. Check your ANYTHINGLLM_API_KEY.''
        else if status_code resp = 403
          then ''Permission denied. Your API key may lack required permissions.''
        else if status_code resp = 404 then ''Resource not found. Check the slug or ID.''
        else if status_code resp = 429 then ''Rate limit exceeded. Wait before retrying.''
        else if status_code resp = 500
          then ''Internal server error in AnythingLLM. Check LLM provider connectivity.''
        else ''API error (HTTP '' @ str_int (status_code resp) @ '').'')
     @ [CHR 0x0A] @ ''Details: ''
     @ (case response_json resp of
          Inl err \<Rightarrow> response_text resp
        | Inr (JObject d) \<Rightarrow> json_dumps (JObject d)
        | Inr v \<Rightarrow> py_str v)"
proof (cases "tool_try e call sent")
  case (Pair r s)
  with assms(1) have s: "s = sent @ [req]"
    by (simp add: call_tool_eq except_handler_def split: sum.splits)
  from tool_try_status_error[OF Pair[unfolded s] assms(2,3)]
  have r: "r = Inl (HTTPStatusError resp)" .
  from assms(1) Pair r have "out = handle_error e (HTTPStatusError resp)"
    by (simp add: call_tool_eq except_handler_def)
  then show ?thesis
    by (simp only: handle_status_error)
qed

theorem status_error_message_witness:
  \<open>fst (call_tool
          (server ''test-token''
             (respond (json_reply 503 ''{"error":"down"}'' (JObject [(''error'', JString ''down'')]))))
          CheckAuth [])
   = ''Error: API error (HTTP 503).\<newline>Details: {"error": "down"}''\<close>
proof -
  let ?resp = \<open>json_reply 503 ''{"error":"down"}'' (JObject [(''error'', JString ''down'')])\<close>
  let ?e = "server ''test-token'' (respond ?resp)"
  let ?out = "fst (call_tool ?e CheckAuth [])"
  let ?req = "build_request ?e ''/auth'' ''GET'' None"
  have h1: "call_tool ?e CheckAuth [] = (?out, [] @ [?req])"
    by code_simp
  have h2: "network ?e ?req = Responds ?resp"
    by (simp add: server_def respond_def)
  have h3: "status_code ?resp < 200 \<or> 299 < status_code ?resp"
    by (simp add: json_reply_def)
  have j: \<open>json_dumps (JObject [(''error'', JString ''down'')]) = ''{"error": "down"}''\<close>
    by code_simp
  have n: "str_int 503 = ''503''"
    by code_simp
  show ?thesis
    using status_error_message[OF h1 h2 h3] j n
    by (simp add: json_reply_def)
qed

text \<open>
  C5, as the claim states it, fails on a 404 whose body is the JSON array \<open>[true]\<close>: the
  detail line of the authentication check is Python's \<open>[True]\<close>, neither the JSON text
  nor the raw body; and the phrase of the message is capitalised.
\<close>

theorem status_error_detail_of_array:
  \<open>fst (check_auth
          (server ''test-token'' (respond (json_reply 404 ''[true]'' (JArray [JBool True])))) [])
   = ''Error: Resource not found. Check the slug or ID.\<newline>Details: [True]''
   \<and> json_dumps (JArray [JBool True]) = ''[true]''
   \<and> response_text (json_reply 404 ''[true]'' (JArray [JBool True])) = ''[true]''
   \<and> \<not> contains ''resource not found''
         (fst (check_auth
            (server ''test-token'' (respond (json_reply 404 ''[true]'' (JArray [JBool True]))))
            []))\<close>
  by code_simp


section \<open>The credential check at the tool level\<close>

lemma and_then_blank:
  "API_KEY e = [] \<Longrightarrow>
   and_then (api e ep m b sent) f =
     (Inl (Exc RuntimeError
        ''ANYTHINGLLM_API_KEY is not set. Configure it before using this MCP server.''), sent)"
  by (simp add: and_then_def api_blank strip_def)

lemma validate_opt_eq:
  "validate_opt name v lo hi =
     (if out_of_range v lo hi
      then Inl (Exc ValueError
             (name @ '' must be between '' @ str_num lo @ '' and '' @ str_num hi @ ''.''))
      else Inr ())"
  by (cases v) (simp_all add: validate_range_def)

lemma drop_none_empty: "drop_none xs = [] \<longleftrightarrow> (\<forall>kv \<in> set xs. snd kv = None)"
  by (induction xs rule: drop_none.induct) simp_all

lemma list_entry_empty: "list_entry k v = [] \<longleftrightarrow> (v = None \<or> v = Some [])"
  by (cases v) simp_all

text \<open>
  C4, as the code has it.  With an empty credential no tool issues a request.  The
  output is the configuration error exactly when the call gets as far as the
  dispatcher; a call that the tool's own argument checks turn down returns the error of
  that check instead: the validation message of the first number out of its range, or
  the sentence the tool writes for an update with nothing in it, a link that is neither
  \<open>http://\<close> nor \<open>https://\<close>, or an embedding change without additions and deletions.
\<close>

theorem empty_credential_no_request:
  assumes "API_KEY e = []"
  shows "snd (call_tool e call sent) = sent
     \<and> (fst (call_tool e call sent)
          = ''Error: ANYTHINGLLM_API_KEY is not set. Configure it before using this MCP server.''
        \<longleftrightarrow> \<not> rejected_locally call)
     \<and> fst (call_tool e call sent) =
         (case call of
            UpdateWorkspace slug name openAiTemp openAiHistory openAiPrompt similarityThreshold
                topN chatMode \<Rightarrow>
              if out_of_range (map_option NFloat openAiTemp) (NFloat float_0) (NFloat float_1)
                then ''Error: ValueError: openAiTemp must be between 0.0 and 1.0.''
              else if out_of_range (map_option NInt openAiHistory) (NInt 0) (NInt 100)
                then ''Error: ValueError: openAiHistory must be between 0 and 100.''
              else if out_of_range (map_option NFloat similarityThreshold)
                        (NFloat float_0) (NFloat float_1)
                then ''Error: ValueError: similarityThreshold must be between 0.0 and 1.0.''
              else if out_of_range (map_option NInt topN) (NInt 1) (NInt 20)
                then ''Error: ValueError: topN must be between 1 and 20.''
              else if name = None \<and> openAiTemp = None \<and> openAiHistory = None
                      \<and> openAiPrompt = None \<and> similarityThreshold = None \<and> topN = None
                      \<and> chatMode = None
                then ''Error: No updates provided.''
              else ''Error: ANYTHINGLLM_API_KEY is not set. Configure it before using this MCP server.''
          | UploadLink link \<Rightarrow>
              if \<not> (startswith ''http://'' link \<or> startswith ''https://'' link)
                then ''Error: Link must start with http:// or https://''
              else ''Error: ANYTHINGLLM_API_KEY is not set. Configure it before using this MCP server.''
          | UpdateEmbeddings slug adds deletes \<Rightarrow>
              if (adds = None \<or> adds = Some []) \<and> (deletes = None \<or> deletes = Some [])
                then ''Error: Provide at least 'adds' or 'deletes'.''
              else ''Error: ANYTHINGLLM_API_KEY is not set. Configure it before using this MCP server.''
          | SearchWorkspace slug query top_n score_threshold \<Rightarrow>
              if out_of_range (Some (NInt top_n)) (NInt 1) (NInt 20)
                then ''Error: ValueError: top_n must be between 1 and 20.''
              else if out_of_range (map_option NFloat score_threshold)
                        (NFloat float_0) (NFloat float_1)
                then ''Error: ValueError: score_threshold must be between 0.0 and 1.0.''
              else ''Error: ANYTHINGLLM_API_KEY is not set. Configure it before using this MCP server.''
          | _ \<Rightarrow>
              ''Error: ANYTHINGLLM_API_KEY is not set. Configure it before using this MCP server.'')"
  using assms
  by (cases call)
     (simp_all add: tool_defs try_defs and_then_blank except_handler_def before_request_def
        validate_opt_eq validate_range_def issubclass_def Let_def drop_none_empty
        list_entry_empty str_int_def digit_def float_0_def float_1_def)

theorem empty_credential_no_request_witness:
  "call_tool (server [] (respond (text_reply 200 ''OK''))) CheckAuth []
     = (''Error: ANYTHINGLLM_API_KEY is not set. Configure it before using this MCP server.'', [])
   \<and> call_tool (server [] (respond (text_reply 200 ''OK''))) (UploadLink ''ftp://example.org/a'') []
     = (''Error: Link must start with http:// or https://'', [])"
proof -
  have h: "API_KEY (server [] (respond (text_reply 200 ''OK''))) = []"
    by (simp add: server_def)
  show ?thesis
    using empty_credential_no_request[OF h, of CheckAuth "[]"]
          empty_credential_no_request[OF h, of "UploadLink ''ftp://example.org/a''" "[]"]
    by (simp add: prod_eq_iff startswith_def)
qed

text \<open>
  C4, as the claim states it, fails for a search with \<open>top_n = 0\<close> under an empty
  credential: the output is the validation error and does not mention the credential.
\<close>

theorem empty_credential_search_top_n_zero:
  "API_KEY (server [] (respond (text_reply 200 ''OK''))) = []
   \<and> call_tool (server [] (respond (text_reply 200 ''OK'')))
        (SearchWorkspace ''demo'' ''query'' 0 None) []
     = (''Error: ValueError: top_n must be between 1 and 20.'', [])
   \<and> \<not> contains ''ANYTHINGLLM_API_KEY is not set''
        (fst (call_tool (server [] (respond (text_reply 200 ''OK'')))
                (SearchWorkspace ''demo'' ''query'' 0 None) []))"
  by code_simp


section \<open>The payload of a successful call\<close>

lemma except_handler_sent_Inl [simp]: "except_handler e (Inl err, sent) \<noteq> (out, sent @ [req])"
  by (simp add: except_handler_def)
lemma except_handler_sent_Inr [simp]: "except_handler e (Inr x, sent) \<noteq> (out, sent @ [req])"
  by (simp add: except_handler_def)

lemma passthrough:
  assumes "except_handler e (and_then (api e ep m b sent) (\<lambda>result. Inr (json_response result)))
             = (out, sent @ [req])"
      and "network e req = Responds resp" and "is_success resp"
  shows "out = (if contains ''application/json'' (headers_get (headers resp) ''content-type'' [])
                then (case response_json resp of
                        Inr v \<Rightarrow> json_response v
                      | Inl (c, m) \<Rightarrow> handle_error e (Exc c m))
                else encode_basestring False (response_text resp))"
proof (cases "api e ep m b sent")
  case (Pair r s)
  with assms(1) have s: "s = sent @ [req]"
    by (simp add: except_handler_def and_then_def split: sum.splits)
  from api_sent_request[OF Pair[unfolded s] assms(2,3)] have
    r: "r = (if contains ''application/json'' (headers_get (headers resp) ''content-type'' [])
        then (case response_json resp of Inr v \<Rightarrow> Inr v | Inl (c, m) \<Rightarrow> Inl (Exc c m))
        else Inr (JString (response_text resp)))" by simp
  from assms(1) Pair have "out = (case r of Inl err \<Rightarrow> handle_error e err | Inr v \<Rightarrow> json_response v)"
    by (simp add: except_handler_def and_then_def split: sum.splits)
  then show ?thesis
    unfolding r by (simp add: json_response_def split: sum.splits prod.splits)
qed

text \<open>
  C3, as the code has it.  Take a tool that returns the dispatcher's payload, a call of
  it that issued a request, and a 2xx response to that request.  When the content type
  contains \<open>application/json\<close> the dispatcher returns the parsed value and the output is
  its pretty-printed JSON (or the normalised error when the body does not parse).  For
  any other content type the dispatcher returns the body text, and the output is that
  text as a JSON string literal: in double quotes, with the escapes of \<open>json.dumps\<close>.
\<close>

theorem success_output_by_content_type:
  assumes "returns_payload call"
      and "call_tool e call sent = (out, sent @ [req])"
      and "network e req = Responds resp"
      and "is_success resp"
  shows "out = (if contains ''application/json'' (headers_get (headers resp) ''content-type'' [])
                then (case response_json resp of
                        Inr v \<Rightarrow> json_response v
                      | Inl (c, m) \<Rightarrow> handle_error e (Exc c m))
                else encode_basestring False (response_text resp))"
proof -
  have "\<exists>ep m b. except_handler e (and_then (api e ep m b sent) (\<lambda>result. Inr (json_response result)))
             = (out, sent @ [req])"
    using assms(1,2)
    by (cases call)
       (auto simp: tool_defs try_defs before_request_def Let_def split: sum.splits if_splits)
  then show ?thesis
    using passthrough[OF _ assms(3,4)] by blast
qed

theorem success_output_by_content_type_witness:
  \<open>returns_payload CheckAuth
   \<and> fst (call_tool
            (server ''test-token''
               (respond (json_reply 200 ''{"ok": true}'' (JObject [(''ok'', JBool True)]))))
            CheckAuth [])
     = ''{'' @ [CHR 0x0A] @ ''  "ok": true'' @ [CHR 0x0A] @ ''}''\<close>
proof -
  let ?resp = \<open>json_reply 200 ''{"ok": true}'' (JObject [(''ok'', JBool True)])\<close>
  let ?e = "server ''test-token'' (respond ?resp)"
  let ?out = "fst (call_tool ?e CheckAuth [])"
  let ?req = "build_request ?e ''/auth'' ''GET'' None"
  have h1: "returns_payload CheckAuth"
    by simp
  have h2: "call_tool ?e CheckAuth [] = (?out, [] @ [?req])"
    by code_simp
  have h3: "network ?e ?req = Responds ?resp"
    by (simp add: server_def respond_def)
  have h4: "is_success ?resp"
    by (simp add: is_success_def json_reply_def)
  have j: \<open>json_response (JObject [(''ok'', JBool True)])
             = ''{'' @ [CHR 0x0A] @ ''  "ok": true'' @ [CHR 0x0A] @ ''}''\<close>
    by code_simp
  show ?thesis
    using h1 success_output_by_content_type[OF h1 h2 h3 h4] j
    by (simp add: json_reply_def headers_get_def startswith_def)
qed

text \<open>
  C3, as the claim states it, fails on a plain-text answer \<open>OK\<close> to the authentication
  check: the output is the four characters \<open>"OK"\<close>, not the raw text.
\<close>

theorem plain_text_success_is_quoted:
  \<open>fst (check_auth (server ''test-token'' (respond (text_reply 200 ''OK''))) []) = ''"OK"''
   \<and> fst (check_auth (server ''test-token'' (respond (text_reply 200 ''OK''))) [])
     \<noteq> response_text (text_reply 200 ''OK'')\<close>
  by code_simp


section \<open>Workspace listing\<close>

lemma json_response_listing:
  \<open>json_response (JObject [(''total'', JInt n), (''workspaces'', JArray xs)])
   = ''{\<newline>  "total": '' @ str_int n @ '',\<newline>  "workspaces": ''
     @ iterencode (Some 2) False 1 (JArray xs) @ ''\<newline>}''\<close>
  by (simp add: json_response_def encode_basestring_def escape_char_def numeral_2_eq_2)

lemma summarize_all2:
  "list_all2 (\<lambda>ws entry. workspace_summary ws = Inr entry) wss entries \<Longrightarrow>
   summarize wss acc = Inr (acc @ entries)"
  by (induction wss entries arbitrary: acc rule: list_all2_induct) (simp_all add: bnd_def)

lemma ex_list_all2: "\<forall>x \<in> set xs. \<exists>y. P x y \<Longrightarrow> \<exists>ys. list_all2 P xs ys"
proof (induction xs)
  case Nil
  then show ?case by simp
next
  case (Cons x xs)
  then obtain y ys where "P x y" "list_all2 P xs ys" by auto
  then have "list_all2 P (x # xs) (y # ys)" by simp
  then show ?case by blast
qed

lemma workspace_summary_object:
  "py_len (dict_get d ''threads'' (JArray [])) = Inr n \<Longrightarrow>
   workspace_summary (JObject d) =
     Inr (JObject
       [(''name'', dict_get d ''name'' JNull),
        (''slug'', dict_get d ''slug'' JNull),
        (''chatMode'', dict_get d ''chatMode'' (JString ''chat'')),
        (''vectorSearchMode'', dict_get d ''vectorSearchMode'' JNull),
        (''threads'', JInt (int n)),
        (''createdAt'', dict_get d ''createdAt'' JNull)])"
  by (simp add: workspace_summary_def bnd_def)

text \<open>
  C6.  When the backend answers the listing with an object whose \<open>workspaces\<close> is an
  array of objects (each with no \<open>threads\<close> or one that has a length), the output is
  the pretty-printed object with \<open>total\<close>, the number of entries, and \<open>workspaces\<close>, one
  summary per entry in the same order: the text opens with the line of \<open>total\<close> and the
  key \<open>workspaces\<close>, and closes after the array of summaries.  A summary has exactly
  the keys \<open>name\<close>, \<open>slug\<close>, \<open>chatMode\<close>, \<open>vectorSearchMode\<close>, \<open>threads\<close> and
  \<open>createdAt\<close>, whatever other fields the entry carries; \<open>threads\<close> is the number of
  threads.
\<close>

theorem list_workspaces_summary:
  assumes "api e ''/workspaces'' ''GET'' None sent = (Inr (JObject result), sent')"
      and "dict_get result ''workspaces'' (JArray []) = JArray wss"
      and "\<forall>ws \<in> set wss. \<exists>d n. ws = JObject d \<and> py_len (dict_get d ''threads'' (JArray [])) = Inr n"
  shows \<open>\<exists>entries.
           list_workspaces e sent =
             (json_response
                (JObject [(''total'', JInt (int (length wss))),
                          (''workspaces'', JArray (map JObject entries))]), sent')
         \<and> fst (list_workspaces e sent) =
             ''{\<newline>  "total": '' @ str_int (int (length wss)) @ '',\<newline>  "workspaces": ''
             @ iterencode (Some 2) False 1 (JArray (map JObject entries)) @ ''\<newline>}''
         \<and> list_all2
             (\<lambda>ws entry. \<exists>d n. ws = JObject d
                \<and> py_len (dict_get d ''threads'' (JArray [])) = Inr n
                \<and> entry =
                    [(''name'', dict_get d ''name'' JNull),
                     (''slug'', dict_get d ''slug'' JNull),
                     (''chatMode'', dict_get d ''chatMode'' (JString ''chat'')),
                     (''vectorSearchMode'', dict_get d ''vectorSearchMode'' JNull),
                     (''threads'', JInt (int n)),
                     (''createdAt'', dict_get d ''createdAt'' JNull)])
             wss entries
         \<and> (\<forall>entry \<in> set entries.
               map fst entry =
                 [''name'', ''slug'', ''chatMode'', ''vectorSearchMode'', ''threads'', ''createdAt''])\<close>
proof -
  let ?P = "\<lambda>ws entry. \<exists>d n. ws = JObject d
                \<and> py_len (dict_get d ''threads'' (JArray [])) = Inr n
                \<and> entry =
                    [(''name'', dict_get d ''name'' JNull),
                     (''slug'', dict_get d ''slug'' JNull),
                     (''chatMode'', dict_get d ''chatMode'' (JString ''chat'')),
                     (''vectorSearchMode'', dict_get d ''vectorSearchMode'' JNull),
                     (''threads'', JInt (int n)),
                     (''createdAt'', dict_get d ''createdAt'' JNull)]"
  from assms(3) have "\<forall>ws \<in> set wss. \<exists>entry. ?P ws entry" by blast
  then obtain entries where all2: "list_all2 ?P wss entries"
    using ex_list_all2[of wss ?P] by blast
  have len: "length entries = length wss"
    using all2 by (simp add: list_all2_lengthD)
  have "list_all2 (\<lambda>ws entry. workspace_summary ws = Inr (JObject entry)) wss entries"
    using all2 by (rule list_all2_mono) (auto simp: workspace_summary_object)
  then have "list_all2 (\<lambda>ws j. workspace_summary ws = Inr j) wss (map JObject entries)"
    by (simp add: list_all2_map2)
  then have sm: "summarize wss [] = Inr (map JObject entries)"
    using summarize_all2[of wss "map JObject entries" "[]"] by simp
  have out: "list_workspaces e sent =
             (json_response
                (JObject [(''total'', JInt (int (length wss))),
                          (''workspaces'', JArray (map JObject entries))]), sent')"
    by (simp add: list_workspaces_def list_workspaces_try_def and_then_def assms(1,2)
          as_dict_def bnd_def sm except_handler_def len)
  have keys: "\<forall>entry \<in> set entries.
               map fst entry =
                 [''name'', ''slug'', ''chatMode'', ''vectorSearchMode'', ''threads'', ''createdAt'']"
  proof
    fix entry assume "entry \<in> set entries"
    then obtain i where "i < length entries" "entry = entries ! i"
      by (auto simp: in_set_conv_nth)
    with all2 have "?P (wss ! i) entry"
      by (simp add: list_all2_conv_all_nth)
    then show "map fst entry =
                 [''name'', ''slug'', ''chatMode'', ''vectorSearchMode'', ''threads'', ''createdAt'']"
      by auto
  qed
  have layout: \<open>fst (list_workspaces e sent) =
             ''{\<newline>  "total": '' @ str_int (int (length wss)) @ '',\<newline>  "workspaces": ''
             @ iterencode (Some 2) False 1 (JArray (map JObject entries)) @ ''\<newline>}''\<close>
    using out by (simp add: json_response_listing)
  from out layout all2 keys show ?thesis by blast
qed

theorem list_workspaces_summary_witness:
  \<open>fst (list_workspaces
          (server ''test-token''
             (respond (json_reply 200
                ''{"workspaces":[{"id":1,"name":"Papers","slug":"papers","openAiTemp":null,"threads":[{"id":7}]}]}''
                (JObject [(''workspaces'',
                   JArray [JObject [(''id'', JInt 1),
                                    (''name'', JString ''Papers''),
                                    (''slug'', JString ''papers''),
                                    (''openAiTemp'', JNull),
                                    (''threads'', JArray [JObject [(''id'', JInt 7)]])]])]))))
          [])
   = ''{\<newline>  "total": 1,\<newline>  "workspaces": [\<newline>    {\<newline>      "name": "Papers",\<newline>      "slug": "papers",\<newline>      "chatMode": "chat",\<newline>      "vectorSearchMode": null,\<newline>      "threads": 1,\<newline>      "createdAt": null\<newline>    }\<newline>  ]\<newline>}''\<close>
proof -
  have j: \<open>json_response
       (JObject [(''total'', JInt 1),
                 (''workspaces'',
                  JArray [JObject [(''name'', JString ''Papers''),
                                   (''slug'', JString ''papers''),
                                   (''chatMode'', JString ''chat''),
                                   (''vectorSearchMode'', JNull),
                                   (''threads'', JInt 1),
                                   (''createdAt'', JNull)]])])
     = ''{\<newline>  "total": 1,\<newline>  "workspaces": [\<newline>    {\<newline>      "name": "Papers",\<newline>      "slug": "papers",\<newline>      "chatMode": "chat",\<newline>      "vectorSearchMode": null,\<newline>      "threads": 1,\<newline>      "createdAt": null\<newline>    }\<newline>  ]\<newline>}''\<close>
    by code_simp
  let ?ws = "[(''id'', JInt 1),
              (''name'', JString ''Papers''),
              (''slug'', JString ''papers''),
              (''openAiTemp'', JNull),
              (''threads'', JArray [JObject [(''id'', JInt 7)]])]"
  let ?result = "[(''workspaces'', JArray [JObject ?ws])]"
  let ?e = \<open>server ''test-token''
             (respond (json_reply 200
                ''{"workspaces":[{"id":1,"name":"Papers","slug":"papers","openAiTemp":null,"threads":[{"id":7}]}]}''
                (JObject ?result)))\<close>
  have h1: "api ?e ''/workspaces'' ''GET'' None []
              = (Inr (JObject ?result), [build_request ?e ''/workspaces'' ''GET'' None])"
    by code_simp
  have h2: "dict_get ?result ''workspaces'' (JArray []) = JArray [JObject ?ws]"
    by (simp add: dict_get_def)
  have h3: "\<forall>ws \<in> set [JObject ?ws].
              \<exists>d n. ws = JObject d \<and> py_len (dict_get d ''threads'' (JArray [])) = Inr n"
    by (simp add: dict_get_def)
  from list_workspaces_summary[OF h1 h2 h3] obtain entries where
    out: "list_workspaces ?e [] =
             (json_response
                (JObject [(''total'', JInt (int (length [JObject ?ws]))),
                          (''workspaces'', JArray (map JObject entries))]),
              [build_request ?e ''/workspaces'' ''GET'' None])"
    and all2: "list_all2
             (\<lambda>ws entry. \<exists>d n. ws = JObject d
                \<and> py_len (dict_get d ''threads'' (JArray [])) = Inr n
                \<and> entry =
                    [(''name'', dict_get d ''name'' JNull),
                     (''slug'', dict_get d ''slug'' JNull),
                     (''chatMode'', dict_get d ''chatMode'' (JString ''chat'')),
                     (''vectorSearchMode'', dict_get d ''vectorSearchMode'' JNull),
                     (''threads'', JInt (int n)),
                     (''createdAt'', dict_get d ''createdAt'' JNull)])
             [JObject ?ws] entries"
    by blast
  from all2 have "entries =
      [[(''name'', JString ''Papers''),
        (''slug'', JString ''papers''),
        (''chatMode'', JString ''chat''),
        (''vectorSearchMode'', JNull),
        (''threads'', JInt 1),
        (''createdAt'', JNull)]]"
    by (auto simp: list_all2_Cons1 dict_get_def)
  with out j show ?thesis
    by simp
qed


section \<open>System settings\<close>

lemma json_response_settings:
  \<open>json_response (JObject [(''settings'', JObject d)])
   = ''{\<newline>  "settings": '' @ iterencode (Some 2) False 1 (JObject d) @ ''\<newline>}''\<close>
  by (simp add: json_response_def encode_basestring_def escape_char_def numeral_2_eq_2)

lemma filter_settings_dict:
  "filter_settings (JObject s) ks =
     Inr (filter (\<lambda>kv. snd kv \<noteq> JNull) (map (\<lambda>k. (k, dict_get s k JNull)) ks))"
  by (induction ks) (simp_all add: bnd_def)

text \<open>
  C7, as the code has it.  When the backend answers with an object whose \<open>settings\<close> is
  an object, the output is the pretty-printed object with the single entry \<open>settings\<close>,
  and the keys directly under it are keys of the allow-list \<open>safe_keys\<close>: those whose
  value in the backend's settings is present and not null, each with that value kept
  whole.
\<close>

theorem system_settings_allow_list:
  assumes "api e ''/system'' ''GET'' None sent = (Inr (JObject result), sent')"
      and "dict_get result ''settings'' (JObject []) = JObject settings"
  shows \<open>\<exists>filtered.
           get_system_settings e sent =
             (json_response (JObject [(''settings'', JObject filtered)]), sent')
         \<and> fst (get_system_settings e sent) =
             ''{\<newline>  "settings": '' @ iterencode (Some 2) False 1 (JObject filtered) @ ''\<newline>}''
         \<and> filtered =
             filter (\<lambda>kv. snd kv \<noteq> JNull) (map (\<lambda>k. (k, dict_get settings k JNull)) safe_keys)
         \<and> set (map fst filtered) \<subseteq> set safe_keys
         \<and> (\<forall>kv \<in> set filtered. map_of settings (fst kv) = Some (snd kv) \<and> snd kv \<noteq> JNull)\<close>
proof -
  let ?f = "filter (\<lambda>kv. snd kv \<noteq> JNull) (map (\<lambda>k. (k, dict_get settings k JNull)) safe_keys)"
  have out: "get_system_settings e sent
               = (json_response (JObject [(''settings'', JObject ?f)]), sent')"
    by (simp add: get_system_settings_def get_system_settings_try_def and_then_def assms
          as_dict_def bnd_def filter_settings_dict except_handler_def)
  have \<open>fst (get_system_settings e sent) =
          ''{\<newline>  "settings": '' @ iterencode (Some 2) False 1 (JObject ?f) @ ''\<newline>}''\<close>
    using out by (simp only: fst_conv json_response_settings)
  moreover note out
  moreover have "set (map fst ?f) \<subseteq> set safe_keys"
    by auto
  moreover have "\<forall>kv \<in> set ?f. map_of settings (fst kv) = Some (snd kv) \<and> snd kv \<noteq> JNull"
    by (auto simp: dict_get_def split: option.splits)
  ultimately show ?thesis
    by blast
qed

theorem system_settings_allow_list_witness:
  \<open>fst (get_system_settings
          (server ''test-token''
             (respond (json_reply 200
                ''{"settings":{"LLMProvider":"ollama","JWTSecret":"hunter2","VectorDB":null}}''
                (JObject [(''settings'',
                   JObject [(''LLMProvider'', JString ''ollama''),
                            (''JWTSecret'', JString ''hunter2''),
                            (''VectorDB'', JNull)])]))))
          [])
   = ''{\<newline>  "settings": {\<newline>    "LLMProvider": "ollama"\<newline>  }\<newline>}''\<close>
proof -
  have j: \<open>json_response (JObject [(''settings'', JObject [(''LLMProvider'', JString ''ollama'')])])
            = ''{\<newline>  "settings": {\<newline>    "LLMProvider": "ollama"\<newline>  }\<newline>}''\<close>
    by code_simp
  let ?settings = "[(''LLMProvider'', JString ''ollama''),
                    (''JWTSecret'', JString ''hunter2''),
                    (''VectorDB'', JNull)]"
  let ?result = "[(''settings'', JObject ?settings)]"
  let ?e = \<open>server ''test-token''
             (respond (json_reply 200
                ''{"settings":{"LLMProvider":"ollama","JWTSecret":"hunter2","VectorDB":null}}''
                (JObject ?result)))\<close>
  have h1: "api ?e ''/system'' ''GET'' None []
              = (Inr (JObject ?result), [build_request ?e ''/system'' ''GET'' None])"
    by code_simp
  have h2: "dict_get ?result ''settings'' (JObject []) = JObject ?settings"
    by (simp add: dict_get_def)
  have f: "filter (\<lambda>kv. snd kv \<noteq> JNull) (map (\<lambda>k. (k, dict_get ?settings k JNull)) safe_keys)
             = [(''LLMProvider'', JString ''ollama'')]"
    by (simp add: safe_keys_def dict_get_def)
  from system_settings_allow_list[OF h1 h2] obtain filtered where
    "get_system_settings ?e [] =
       (json_response (JObject [(''settings'', JObject filtered)]),
        [build_request ?e ''/system'' ''GET'' None])"
    and "filtered =
       filter (\<lambda>kv. snd kv \<noteq> JNull) (map (\<lambda>k. (k, dict_get ?settings k JNull)) safe_keys)"
    by blast
  then show ?thesis
    unfolding f using j by simp
qed

text \<open>
  C7, as the claim states it, fails when an allow-listed value is itself an object: its
  keys come out with it, and the wrapper key \<open>settings\<close> is not on the allow-list
  either.
\<close>

theorem system_settings_nested_key:
  \<open>fst (get_system_settings
          (server ''test-token''
             (respond (json_reply 200
                ''{"settings":{"LLMProvider":{"JWTSecret":"hunter2"}}}''
                (JObject [(''settings'',
                   JObject [(''LLMProvider'', JObject [(''JWTSecret'', JString ''hunter2'')])])]))))
          [])
   = ''{\<newline>  "settings": {\<newline>    "LLMProvider": {\<newline>      "JWTSecret": "hunter2"\<newline>    }\<newline>  }\<newline>}''
   \<and> contains ''"JWTSecret"''
        (fst (get_system_settings
          (server ''test-token''
             (respond (json_reply 200
                ''{"settings":{"LLMProvider":{"JWTSecret":"hunter2"}}}''
                (JObject [(''settings'',
                   JObject [(''LLMProvider'', JObject [(''JWTSecret'', JString ''hunter2'')])])]))))
          []))
   \<and> ''JWTSecret'' \<notin> set safe_keys
   \<and> ''settings'' \<notin> set safe_keys\<close>
  by code_simp

end
